theory Spec2Isabelle
  imports Main
begin

section \<open>Data model of the scanner component (src/src/App.jsx)\<close>

text \<open>
  The component keeps its data in React state cells (lines 6-14) and in refs
  (lines 15-19). The model is one record of all of them, passed through every
  handler and returned updated. Strings are \<open>string\<close>, \<open>Date.now()\<close> is an
  \<open>int\<close> of milliseconds, the \<open>Set\<close> of scanned codes is a \<open>string set\<close>.
\<close>

datatype scan_status = StatusSuccess | StatusDuplicate

datatype permission = Prompt | Granted | Denied

record scanned_data =
  sd_text :: string
  sd_timestamp :: string
  sd_raw :: string
  sd_isDuplicate :: bool

record history_entry =
  he_text :: string
  he_timestamp :: string
  he_isDuplicate :: bool

record last_scan =
  ls_code :: "string option"
  ls_timestamp :: int

text \<open>
  What the browser and the decoder library are asked to do is kept as a log of
  calls, in the order the handlers make them: the camera probe
  (\<open>getUserMedia\<close>), the calls on an \<open>Html5Qrcode\<close> instance (instances are
  numbered in creation order), and the audio and vibration cues.
\<close>

datatype camera_selector = FacingMode string | DeviceId string

datatype feedback_cue = SuccessCue | ErrorCue

datatype ext_call =
    GetUserMedia
  | DecoderStart nat camera_selector
  | DecoderIsScanning nat
  | DecoderStop nat
  | DecoderClear nat
  | Feedback feedback_cue

record app_state =
  isScanning :: bool
  scannedData :: "scanned_data option"
  scanStatus :: "scan_status option"
  scanHistory :: "history_entry list"
  error :: "string option"
  isInitializing :: bool
  permissionStatus :: permission
  showPermissionPrompt :: bool
  isSecureContext :: bool
  html5QrCodeRef :: "nat option"
  lastScanRef :: last_scan
  scannedCodesRef :: "string set"
  wasScanningRef :: bool
  scannersCreated :: nat
  timers :: "int list"
  trace :: "ext_call list"

text \<open>
  The last three fields are not cells of the component: \<open>scannersCreated\<close>
  numbers the \<open>new Html5Qrcode\<close> objects, \<open>timers\<close> holds the due times of the
  pending auto-clear timeouts (every one of them has the same callback, lines
  411-414 and 434-437), and \<open>trace\<close> is the log of external calls.
\<close>

definition initial_state :: app_state where
  "initial_state =
     \<lparr> isScanning = False, scannedData = None, scanStatus = None, scanHistory = [],
       error = None, isInitializing = False, permissionStatus = Prompt,
       showPermissionPrompt = True, isSecureContext = True, html5QrCodeRef = None,
       lastScanRef = \<lparr> ls_code = None, ls_timestamp = 0 \<rparr>, scannedCodesRef = {},
       wasScanningRef = False, scannersCreated = 0, timers = [], trace = [] \<rparr>"

definition DEBOUNCE_TIME :: int where
  "DEBOUNCE_TIME = 2000"

section \<open>Feedback (lines 95-105)\<close>

text \<open>
  \<open>playSound\<close> and \<open>vibrate\<close> catch everything they raise, so a cue is a
  request that cannot fail; the model records the request.
\<close>

definition triggerSuccessFeedback :: "app_state \<Rightarrow> app_state" where
  "triggerSuccessFeedback s = s\<lparr> trace := trace s @ [Feedback SuccessCue] \<rparr>"

definition triggerErrorFeedback :: "app_state \<Rightarrow> app_state" where
  "triggerErrorFeedback s = s\<lparr> trace := trace s @ [Feedback ErrorCue] \<rparr>"

section \<open>The scan handler (lines 384-439)\<close>

text \<open>
  \<open>handleScanSuccess decodedText decodedResult now timeStr s\<close>: \<open>now\<close> is the
  value \<open>Date.now()\<close> returns at line 385 and \<open>timeStr\<close> the string
  \<open>new Date().toLocaleTimeString()\<close> gives during the call. The handler returns
  nothing in the source; the first component of the model's result names the
  branch that ran: the early return of line 390 is \<open>Suppressed\<close>, the branch of
  lines 399-414 is \<open>Duplicate\<close>, the branch of lines 415-438 is \<open>Accepted\<close>.
  \<open>setTimeout(f, 2000)\<close> adds a pending timeout due 2000 ms after \<open>now\<close>.
\<close>

datatype scan_outcome = Accepted | Duplicate | Suppressed

definition setTimeout_autoClear :: "int \<Rightarrow> app_state \<Rightarrow> app_state" where
  "setTimeout_autoClear now s = s\<lparr> timers := timers s @ [now + 2000] \<rparr>"

definition handleScanSuccess ::
  "string \<Rightarrow> string \<Rightarrow> int \<Rightarrow> string \<Rightarrow> app_state \<Rightarrow> scan_outcome \<times> app_state" where
  "handleScanSuccess decodedText decodedResult now timeStr s =
     (let lastScan = lastScanRef s in
      if ls_code lastScan = Some decodedText \<and> now - ls_timestamp lastScan < DEBOUNCE_TIME
      then (Suppressed, s)
      else
        let s1 = s\<lparr> lastScanRef := \<lparr> ls_code = Some decodedText, ls_timestamp = now \<rparr> \<rparr>;
            isDup = (decodedText \<in> scannedCodesRef s1)
        in if isDup then
             let s2 = s1\<lparr> scanStatus := Some StatusDuplicate \<rparr>;
                 s3 = s2\<lparr> scannedData := Some \<lparr> sd_text = decodedText, sd_timestamp = timeStr,
                                                 sd_raw = decodedResult, sd_isDuplicate = True \<rparr> \<rparr>;
                 s4 = triggerErrorFeedback s3
             in (Duplicate, setTimeout_autoClear now s4)
           else
             let s2 = s1\<lparr> scannedCodesRef := insert decodedText (scannedCodesRef s1) \<rparr>;
                 s3 = s2\<lparr> scanStatus := Some StatusSuccess \<rparr>;
                 s4 = s3\<lparr> scannedData := Some \<lparr> sd_text = decodedText, sd_timestamp = timeStr,
                                                 sd_raw = decodedResult, sd_isDuplicate = False \<rparr> \<rparr>;
                 s5 = triggerSuccessFeedback s4;
                 s6 = s5\<lparr> scanHistory :=
                            \<lparr> he_text = decodedText, he_timestamp = timeStr,
                              he_isDuplicate = False \<rparr> # take 9 (scanHistory s5) \<rparr>
             in (Accepted, setTimeout_autoClear now s6))"

text \<open>The callback of every auto-clear timeout (lines 411-414, 434-437).\<close>

definition autoClear :: "app_state \<Rightarrow> app_state" where
  "autoClear s = s\<lparr> scannedData := None, scanStatus := None \<rparr>"

text \<open>
  The \<open>i\<close>-th pending timeout fires: it leaves the pending list and its
  callback runs. Nothing in the source calls \<open>clearTimeout\<close>, so a timeout
  leaves the list in no other way.
\<close>

definition fireTimer :: "nat \<Rightarrow> app_state \<Rightarrow> app_state" where
  "fireTimer i s =
     (if i < length (timers s)
      then autoClear (s\<lparr> timers := take i (timers s) @ drop (Suc i) (timers s) \<rparr>)
      else s)"

section \<open>Exceptions and external calls\<close>

text \<open>
  A JavaScript error value is read by the handlers through \<open>name\<close> and
  \<open>message\<close> only; an absent or empty message is the empty string (both are
  falsy in every test the source makes). A handler either completes or throws,
  and in both cases the writes it made before stay: a completion carries the
  state. \<open>andThen\<close> is sequencing (a throw skips the rest), \<open>tryCatch\<close> is
  \<open>try { ... } catch (err) { ... }\<close>.
\<close>

record js_error =
  err_name :: string
  err_message :: string

datatype completion = Normal app_state | Throw js_error app_state

definition andThen :: "completion \<Rightarrow> (app_state \<Rightarrow> completion) \<Rightarrow> completion" where
  "andThen c f = (case c of Normal s \<Rightarrow> f s | Throw e s \<Rightarrow> Throw e s)"

definition tryCatch :: "completion \<Rightarrow> (js_error \<Rightarrow> app_state \<Rightarrow> completion) \<Rightarrow> completion" where
  "tryCatch c h = (case c of Normal s \<Rightarrow> Normal s | Throw e s \<Rightarrow> h e s)"

fun state_of :: "completion \<Rightarrow> app_state" where
  "state_of (Normal s) = s"
| "state_of (Throw e s) = s"

text \<open>
  The answers of the browser and of the decoder library during one run of a
  handler. They are inputs of the model: the library is not part of the
  repository. \<open>None\<close> is a call that resolves, \<open>Some e\<close> one that throws or
  rejects with \<open>e\<close>.
\<close>

record env =
  protocol :: string
  hostname :: string
  mediaDevices :: bool
  getUserMedia_result :: "js_error option"
  readerElement :: bool
  start_result :: "camera_selector \<Rightarrow> js_error option"
  isScanning_result :: "js_error + bool"
  stop_result :: "js_error option"
  clear_result :: "js_error option"
  cameraWorking :: bool

definition call :: "ext_call \<Rightarrow> js_error option \<Rightarrow> app_state \<Rightarrow> completion" where
  "call c res s =
     (let s' = s\<lparr> trace := trace s @ [c] \<rparr>
      in case res of None \<Rightarrow> Normal s' | Some e \<Rightarrow> Throw e s')"

section \<open>Stopping (lines 317-330)\<close>

definition stopScanning :: "env \<Rightarrow> app_state \<Rightarrow> completion" where
  "stopScanning ev s =
     tryCatch
       (andThen
          (case html5QrCodeRef s of
             None \<Rightarrow> Normal s
           | Some q \<Rightarrow>
               andThen (call (DecoderStop q) (stop_result ev) s)
                 (\<lambda>s1. andThen (call (DecoderClear q) (clear_result ev) s1)
                 (\<lambda>s2. Normal (s2\<lparr> html5QrCodeRef := None \<rparr>))))
          (\<lambda>s3. Normal (s3\<lparr> isScanning := False, wasScanningRef := False \<rparr>)))
       (\<lambda>err s4. Normal (s4\<lparr> wasScanningRef := False \<rparr>))"

section \<open>Starting the scanner (lines 181-315)\<close>

text \<open>
  The three selectors of lines 217, 236 and 253: an object with a
  \<open>facingMode\<close>, or a plain string, which the library takes as a device
  identifier.
\<close>

definition start_chain :: "env \<Rightarrow> nat \<Rightarrow> app_state \<Rightarrow> completion" where
  "start_chain ev q s =
     tryCatch
       (call (DecoderStart q (FacingMode ''environment''))
             (start_result ev (FacingMode ''environment'')) s)
       (\<lambda>backCameraError s1.
          tryCatch
            (call (DecoderStart q (DeviceId ''environment''))
                  (start_result ev (DeviceId ''environment'')) s1)
            (\<lambda>stringError s2.
               call (DecoderStart q (FacingMode ''user''))
                    (start_result ev (FacingMode ''user'')) s2))"

text \<open>Lines 183-194: the container check and the new decoder instance.\<close>

definition startScanner_prepare :: "env \<Rightarrow> app_state \<Rightarrow> completion" where
  "startScanner_prepare ev s =
     (if \<not> readerElement ev
      then Throw \<lparr> err_name = ''Error'',
                   err_message = ''Scanner container not found. Please refresh the page.'' \<rparr> s
      else Normal (s\<lparr> html5QrCodeRef := Some (scannersCreated s),
                      scannersCreated := Suc (scannersCreated s) \<rparr>))"

text \<open>
  Lines 269-271, the code after the awaited start. (The timeout of lines
  274-294 only writes to the console.)
\<close>

definition startScanner_started :: "app_state \<Rightarrow> app_state" where
  "startScanner_started s =
     s\<lparr> isScanning := True, isInitializing := False, wasScanningRef := True \<rparr>"

text \<open>Lines 303-311: the inner \<open>try\<close> of the clean-up and its \<open>catch\<close>.\<close>

definition scanner_cleanup :: "env \<Rightarrow> nat \<Rightarrow> app_state \<Rightarrow> completion" where
  "scanner_cleanup ev q s =
     tryCatch
       (let s1 = s\<lparr> trace := trace s @ [DecoderIsScanning q] \<rparr>
        in case isScanning_result ev of
             Inl e \<Rightarrow> Throw e s1
           | Inr running \<Rightarrow>
               andThen (if running then call (DecoderStop q) (stop_result ev) s1 else Normal s1)
                 (\<lambda>s2. call (DecoderClear q) (clear_result ev) s2))
       (\<lambda>cleanupErr s3. Normal s3)"

text \<open>Lines 295-314: the \<open>catch\<close> of \<open>startScanner\<close>.\<close>

definition startScanner_catch :: "env \<Rightarrow> js_error \<Rightarrow> app_state \<Rightarrow> completion" where
  "startScanner_catch ev err s =
     (let s1 = s\<lparr> error := Some (if err_message err = []
                                  then ''Failed to start camera. Please check permissions.''
                                  else err_message err) \<rparr>;
          s2 = s1\<lparr> isScanning := False \<rparr>;
          s3 = s2\<lparr> isInitializing := False \<rparr>
      in case html5QrCodeRef s3 of
           None \<Rightarrow> Normal s3
         | Some q \<Rightarrow>
             andThen (scanner_cleanup ev q s3)
               (\<lambda>s4. Normal (s4\<lparr> html5QrCodeRef := None \<rparr>)))"

text \<open>
  \<open>startScanner\<close> suspends at each \<open>await\<close>, and other handlers of the
  single-threaded component may run before it resumes. \<open>startScanner_with\<close>
  takes the state change \<open>between\<close> that such handlers make while the awaited
  start attempts are pending; the code after the \<open>await\<close> then runs on the
  state they left. The local constant \<open>html5QrCode\<close> of line 193 is the
  instance number \<open>scannersCreated s\<close>. \<open>startScanner\<close> itself is the run
  that nothing interleaves with.
\<close>

definition startScanner_with :: "(app_state \<Rightarrow> app_state) \<Rightarrow> env \<Rightarrow> app_state \<Rightarrow> completion" where
  "startScanner_with between ev s =
     tryCatch
       (andThen (startScanner_prepare ev s)
          (\<lambda>s1. andThen
             (case start_chain ev (scannersCreated s) s1 of
                Normal s2 \<Rightarrow> Normal (between s2)
              | Throw e s2 \<Rightarrow> Throw e (between s2))
          (\<lambda>s3. Normal (startScanner_started s3))))
       (startScanner_catch ev)"

definition startScanner :: "env \<Rightarrow> app_state \<Rightarrow> completion" where
  "startScanner ev s = startScanner_with (\<lambda>s'. s') ev s"

section \<open>Asking for the camera (lines 107-179)\<close>

definition checkSecureContext :: "env \<Rightarrow> app_state \<Rightarrow> bool \<times> app_state" where
  "checkSecureContext ev s =
     (let isLocalhost = (hostname ev = ''localhost'' \<or> hostname ev = ''127.0.0.1'');
          isHTTPS = (protocol ev = ''https:'');
          isSecure = (isHTTPS \<or> isLocalhost)
      in (isSecure, s\<lparr> isSecureContext := isSecure \<rparr>))"

text \<open>\<open>String.prototype.startsWith\<close> and \<open>split\<close> on a one-character separator.\<close>

definition startsWith :: "string \<Rightarrow> string \<Rightarrow> bool" where
  "startsWith str p = (take (length p) str = p)"

fun split_on :: "char \<Rightarrow> string \<Rightarrow> string list" where
  "split_on c [] = [[]]"
| "split_on c (x # xs) =
     (if x = c then [] # split_on c xs
      else (case split_on c xs of
              [] \<Rightarrow> [[x]]
            | p # ps \<Rightarrow> (x # p) # ps))"

text \<open>
  Reading element \<open>i\<close> of an array in a template string: an index past the
  end gives \<open>undefined\<close>, printed as such.
\<close>

definition element_text :: "string list \<Rightarrow> nat \<Rightarrow> string" where
  "element_text xs i = (if i < length xs then xs ! i else ''undefined'')"

definition permission_denied_message :: string where
  "permission_denied_message =
     ''Camera permission denied. Please allow camera access in your browser settings and try again.''"

text \<open>Lines 162-178.\<close>

definition requestCameraPermission_catch :: "js_error \<Rightarrow> app_state \<Rightarrow> completion" where
  "requestCameraPermission_catch err s =
     (let s1 = s\<lparr> isInitializing := False \<rparr>
      in if err_message err \<noteq> [] \<and> startsWith (err_message err) ''HTTPS_REQUIRED'' then
           let parts = split_on CHR '':'' (err_message err);
               hostname' = element_text parts 2
           in Normal (s1\<lparr> permissionStatus := Denied,
                          error := Some (''HTTPS_REQUIRED:'' @ hostname') \<rparr>)
         else if err_name err = ''NotAllowedError'' \<or> err_name err = ''PermissionDeniedError'' then
           Normal (s1\<lparr> permissionStatus := Denied, error := Some permission_denied_message \<rparr>)
         else if err_name err = ''NotFoundError'' \<or> err_name err = ''DevicesNotFoundError'' then
           Normal (s1\<lparr> error := Some ''No camera found. Please use a device with a camera.'' \<rparr>)
         else
           Normal (s1\<lparr> error := Some (if err_message err = []
                                        then ''Failed to access camera. Please check permissions.''
                                        else err_message err) \<rparr>))"

text \<open>
  Lines 120-161. The probe stream is released at once (line 149) and the
  audio context is prepared (line 154); neither can change a cell of the model.
\<close>

definition requestCameraPermission :: "env \<Rightarrow> app_state \<Rightarrow> completion" where
  "requestCameraPermission ev s =
     tryCatch
       (let s1 = s\<lparr> error := None \<rparr>;
            s2 = s1\<lparr> isInitializing := True \<rparr>;
            s3 = s2\<lparr> showPermissionPrompt := False \<rparr>;
            (secure, s4) = checkSecureContext ev s3
        in if \<not> secure then
             Throw \<lparr> err_name = ''Error'',
                     err_message = ''HTTPS_REQUIRED:'' @ protocol ev @ '':'' @ hostname ev \<rparr> s4
           else if \<not> mediaDevices ev then
             Throw \<lparr> err_name = ''Error'',
                     err_message = ''Camera not supported. Please use a device with a camera.'' \<rparr> s4
           else
             andThen (call GetUserMedia (getUserMedia_result ev) s4)
               (\<lambda>s5. startScanner ev (s5\<lparr> permissionStatus := Granted \<rparr>)))
       requestCameraPermission_catch"

section \<open>Recovery and automatic start (lines 344-382, 442-483, 486-589)\<close>

text \<open>
  \<open>restartScannerIfNeeded\<close>: \<open>ev0\<close> answers the calls on the old decoder
  instance, \<open>ev\<close> everything after. While the restart runs, \<open>isScanning\<close>
  can still be true, so the stop button is on screen; \<open>between\<close> is what
  handlers do while the restart's \<open>startScanner\<close> is pending, as for
  \<open>startScanner_with\<close>. The callback reads \<open>isScanning\<close> and
  \<open>permissionStatus\<close> as rendered when it was scheduled; the model reads
  them from the state it is given.
\<close>

definition restartScannerIfNeeded_with ::
  "(app_state \<Rightarrow> app_state) \<Rightarrow> env \<Rightarrow> env \<Rightarrow> app_state \<Rightarrow> completion" where
  "restartScannerIfNeeded_with between ev0 ev s =
     (if wasScanningRef s \<and> permissionStatus s = Granted then
        let isWorking = cameraWorking ev
        in if \<not> isScanning s \<or> \<not> isWorking then
             let s1 = s\<lparr> isInitializing := True \<rparr>;
                 s2 = s1\<lparr> error := None \<rparr>
             in tryCatch
                  (andThen
                     (case html5QrCodeRef s2 of
                        None \<Rightarrow> Normal s2
                      | Some q \<Rightarrow>
                          andThen
                            (tryCatch
                               (andThen (call (DecoderStop q) (stop_result ev0) s2)
                                  (\<lambda>s3. call (DecoderClear q) (clear_result ev0) s3))
                               (\<lambda>e s4. Normal s4))
                            (\<lambda>s5. Normal (s5\<lparr> html5QrCodeRef := None \<rparr>)))
                     (\<lambda>s6. startScanner_with between ev s6))
                  (\<lambda>err s7. Normal (s7\<lparr> error := Some ''Camera lost connection. Please refresh the page.'',
                                         isInitializing := False, wasScanningRef := False \<rparr>))
           else Normal s
      else Normal s)"

definition restartScannerIfNeeded :: "env \<Rightarrow> env \<Rightarrow> app_state \<Rightarrow> completion" where
  "restartScannerIfNeeded ev0 ev s = restartScannerIfNeeded_with (\<lambda>s'. s') ev0 ev s"

definition autoStartIfPermissionGranted :: "env \<Rightarrow> app_state \<Rightarrow> completion" where
  "autoStartIfPermissionGranted ev s =
     tryCatch
       (let (secure, s1) = checkSecureContext ev s
        in if \<not> secure then Normal s1
           else if \<not> mediaDevices ev then Normal s1
           else
             tryCatch
               (andThen (call GetUserMedia (getUserMedia_result ev) s1)
                  (\<lambda>s2. startScanner ev
                           (s2\<lparr> showPermissionPrompt := False, permissionStatus := Granted \<rparr>)))
               (\<lambda>err s3.
                  if err_name err = ''NotAllowedError'' \<or> err_name err = ''PermissionDeniedError''
                  then Normal (s3\<lparr> permissionStatus := Denied \<rparr>)
                  else Normal s3))
       (\<lambda>err s4. Normal s4)"

text \<open>
  Lines 493-516: the permission query, or a later change of the permission,
  reports \<open>p\<close>. Lines 545-549: the page becomes hidden.
\<close>

definition permissionReported :: "permission \<Rightarrow> app_state \<Rightarrow> app_state" where
  "permissionReported p s =
     (let s1 = s\<lparr> permissionStatus := p \<rparr>
      in if p = Granted then s1\<lparr> showPermissionPrompt := False \<rparr> else s1)"

definition pageHidden :: "app_state \<Rightarrow> app_state" where
  "pageHidden s = s\<lparr> wasScanningRef := isScanning s \<rparr>"

section \<open>The component as a transition system\<close>

text \<open>
  One operation is one run of a handler, with the answers the environment
  gives during it. \<open>RestartDuringStop\<close> is the run of
  \<open>restartScannerIfNeeded\<close> in which the operator's stop is handled while the
  restart's decoder start is pending.
\<close>

datatype op =
    ScanSuccess string string int string
  | TimerFires nat
  | StopScanning env
  | RequestCameraPermission env
  | RestartDuringStop env env env
  | RestartScannerIfNeeded env env
  | AutoStartIfPermissionGranted env
  | MountCheck env
  | PermissionReported permission
  | PageHidden

fun step :: "op \<Rightarrow> app_state \<Rightarrow> app_state" where
  "step (ScanSuccess c r now ts) s = snd (handleScanSuccess c r now ts s)"
| "step (TimerFires i) s = fireTimer i s"
| "step (StopScanning ev) s = state_of (stopScanning ev s)"
| "step (RequestCameraPermission ev) s = state_of (requestCameraPermission ev s)"
| "step (RestartDuringStop evStop ev0 ev) s =
     state_of (restartScannerIfNeeded_with (\<lambda>s'. state_of (stopScanning evStop s')) ev0 ev s)"
| "step (RestartScannerIfNeeded ev0 ev) s = state_of (restartScannerIfNeeded ev0 ev s)"
| "step (AutoStartIfPermissionGranted ev) s = state_of (autoStartIfPermissionGranted ev s)"
| "step (MountCheck ev) s = snd (checkSecureContext ev s)"
| "step (PermissionReported p) s = permissionReported p s"
| "step PageHidden s = pageHidden s"

fun run :: "op list \<Rightarrow> app_state \<Rightarrow> app_state" where
  "run [] s = s"
| "run (x # xs) s = run xs (step x s)"

inductive reachable :: "app_state \<Rightarrow> bool" where
  reachable_initial: "reachable initial_state"
| reachable_step: "reachable s \<Longrightarrow> reachable (step x s)"

section \<open>Observations and sample environments\<close>

text \<open>The selectors of the decoder-start calls of a log, in the order of the calls.\<close>

fun start_attempts :: "ext_call list \<Rightarrow> camera_selector list" where
  "start_attempts [] = []"
| "start_attempts (DecoderStart q sel # cs) = sel # start_attempts cs"
| "start_attempts (c # cs) = start_attempts cs"

text \<open>
  An environment in which everything works: a secure origin, a camera that
  is granted, a decoder whose every call resolves.
\<close>

definition good_env :: env where
  "good_env =
     \<lparr> protocol = ''https:'', hostname = ''tickets.example'', mediaDevices = True,
       getUserMedia_result = None, readerElement = True, start_result = (\<lambda>sel. None),
       isScanning_result = Inr True, stop_result = None, clear_result = None,
       cameraWorking = True \<rparr>"

text \<open>
  A decoder whose \<open>stop\<close> rejects, and a page that comes back with a camera
  stream that no longer delivers frames.
\<close>

definition stop_rejected_env :: env where
  "stop_rejected_env =
     good_env\<lparr> stop_result := Some \<lparr> err_name = ''Error'',
                   err_message = ''Cannot stop, scanner is not running or paused.'' \<rparr> \<rparr>"

definition dead_camera_env :: env where
  "dead_camera_env = good_env\<lparr> cameraWorking := False \<rparr>"

text \<open>
  \<open>untouched s t\<close>: going from \<open>s\<close> to \<open>t\<close> changed neither the ledger (seen
  codes, last sighting, history) nor the displayed result nor the pending
  timeouts.
\<close>

definition untouched :: "app_state \<Rightarrow> app_state \<Rightarrow> bool" where
  "untouched s t \<longleftrightarrow>
     scannedCodesRef t = scannedCodesRef s \<and> scanHistory t = scanHistory s \<and>
     lastScanRef t = lastScanRef s \<and> timers t = timers s \<and>
     scannedData t = scannedData s \<and> scanStatus t = scanStatus s"

section \<open>Only the scan handler and the timeouts touch the ledger and the display\<close>

lemma untouched_refl: "untouched s s"
  by (simp add: untouched_def)

lemma untouched_upd [simp]:
  "untouched s (t\<lparr> isScanning := b \<rparr>) = untouched s t"
  "untouched s (t\<lparr> error := er \<rparr>) = untouched s t"
  "untouched s (t\<lparr> isInitializing := b \<rparr>) = untouched s t"
  "untouched s (t\<lparr> permissionStatus := p \<rparr>) = untouched s t"
  "untouched s (t\<lparr> showPermissionPrompt := b \<rparr>) = untouched s t"
  "untouched s (t\<lparr> isSecureContext := b \<rparr>) = untouched s t"
  "untouched s (t\<lparr> html5QrCodeRef := h \<rparr>) = untouched s t"
  "untouched s (t\<lparr> wasScanningRef := b \<rparr>) = untouched s t"
  "untouched s (t\<lparr> scannersCreated := n \<rparr>) = untouched s t"
  "untouched s (t\<lparr> trace := tr \<rparr>) = untouched s t"
  by (simp_all add: untouched_def)

lemma untouched_call: "untouched s t \<Longrightarrow> untouched s (state_of (call c r t))"
  by (cases r) (simp_all add: call_def)

lemma untouched_andThen:
  assumes "untouched s (state_of c)"
    and "\<And>t. untouched s t \<Longrightarrow> untouched s (state_of (k t))"
  shows "untouched s (state_of (andThen c k))"
  using assms by (cases c) (simp_all add: andThen_def)

lemma untouched_tryCatch:
  assumes "untouched s (state_of c)"
    and "\<And>e t. untouched s t \<Longrightarrow> untouched s (state_of (h e t))"
  shows "untouched s (state_of (tryCatch c h))"
  using assms by (cases c) (simp_all add: tryCatch_def)

lemmas untouched_seq = untouched_tryCatch untouched_andThen untouched_call

lemma untouched_stopScanning:
  "untouched s t \<Longrightarrow> untouched s (state_of (stopScanning ev t))"
  unfolding stopScanning_def
  by (cases "html5QrCodeRef t") (simp_all add: untouched_seq)

lemma untouched_start_chain:
  "untouched s t \<Longrightarrow> untouched s (state_of (start_chain ev q t))"
  unfolding start_chain_def
  by (intro untouched_seq)

lemma untouched_scanner_cleanup:
  "untouched s t \<Longrightarrow> untouched s (state_of (scanner_cleanup ev q t))"
  unfolding scanner_cleanup_def Let_def
  by (cases "isScanning_result ev") (simp_all add: untouched_seq)

lemma untouched_startScanner_catch:
  "untouched s t \<Longrightarrow> untouched s (state_of (startScanner_catch ev e t))"
  unfolding startScanner_catch_def Let_def
  by (cases "html5QrCodeRef t") (simp_all add: untouched_seq untouched_scanner_cleanup)

lemma untouched_startScanner_prepare:
  "untouched s t \<Longrightarrow> untouched s (state_of (startScanner_prepare ev t))"
  by (simp add: startScanner_prepare_def)

lemma untouched_startScanner_with:
  assumes b: "\<And>u. untouched s u \<Longrightarrow> untouched s (between u)"
    and t: "untouched s t"
  shows "untouched s (state_of (startScanner_with between ev t))"
  unfolding startScanner_with_def
proof (intro untouched_tryCatch untouched_andThen untouched_startScanner_catch)
  show "untouched s (state_of (startScanner_prepare ev t))"
    by (rule untouched_startScanner_prepare [OF t])
next
  fix u assume u: "untouched s u"
  from untouched_start_chain [OF u, of ev "scannersCreated t"]
  show "untouched s (state_of (case start_chain ev (scannersCreated t) u of
           Normal s2 \<Rightarrow> Normal (between s2) | Throw e s2 \<Rightarrow> Throw e (between s2)))"
    by (cases "start_chain ev (scannersCreated t) u") (simp_all add: b)
next
  fix u assume "untouched s u"
  then show "untouched s (state_of (Normal (startScanner_started u)))"
    by (simp add: startScanner_started_def)
qed

lemma untouched_startScanner:
  "untouched s t \<Longrightarrow> untouched s (state_of (startScanner ev t))"
  unfolding startScanner_def by (rule untouched_startScanner_with)

lemma untouched_requestCameraPermission_catch:
  "untouched s t \<Longrightarrow> untouched s (state_of (requestCameraPermission_catch e t))"
  by (simp add: requestCameraPermission_catch_def Let_def)

lemma untouched_requestCameraPermission:
  "untouched s t \<Longrightarrow> untouched s (state_of (requestCameraPermission ev t))"
  unfolding requestCameraPermission_def checkSecureContext_def Let_def
  by (simp add: untouched_seq untouched_startScanner untouched_requestCameraPermission_catch)

lemma untouched_restart_with:
  assumes b: "\<And>u. untouched s u \<Longrightarrow> untouched s (between u)"
    and t: "untouched s t"
  shows "untouched s (state_of (restartScannerIfNeeded_with between ev0 ev t))"
  using t unfolding restartScannerIfNeeded_with_def Let_def
  by (cases "html5QrCodeRef t")
     (simp_all add: untouched_seq untouched_startScanner_with b)

lemma untouched_autoStart:
  "untouched s t \<Longrightarrow> untouched s (state_of (autoStartIfPermissionGranted ev t))"
  unfolding autoStartIfPermissionGranted_def checkSecureContext_def Let_def
  by (simp add: untouched_seq untouched_startScanner)

lemma untouched_step:
  "(\<forall>c r now ts. x \<noteq> ScanSuccess c r now ts) \<Longrightarrow> (\<forall>i. x \<noteq> TimerFires i)
     \<Longrightarrow> untouched s (step x s)"
proof (cases x)
  case (RestartDuringStop evStop ev0 ev)
  then show ?thesis
    by (simp add: untouched_restart_with untouched_stopScanning untouched_refl)
next
  case (RestartScannerIfNeeded ev0 ev)
  then show ?thesis
    by (simp add: restartScannerIfNeeded_def untouched_restart_with untouched_refl)
qed (simp_all add: untouched_stopScanning untouched_requestCameraPermission untouched_autoStart
       untouched_refl checkSecureContext_def Let_def permissionReported_def pageHidden_def)

section \<open>The history and the seen codes along a run\<close>

lemmas scan_defs = handleScanSuccess_def DEBOUNCE_TIME_def Let_def setTimeout_autoClear_def
  triggerErrorFeedback_def triggerSuccessFeedback_def

lemmas handler_defs = stopScanning_def startScanner_with_def startScanner_def start_chain_def
  startScanner_prepare_def startScanner_started_def scanner_cleanup_def startScanner_catch_def
  requestCameraPermission_def requestCameraPermission_catch_def checkSecureContext_def
  restartScannerIfNeeded_def restartScannerIfNeeded_with_def autoStartIfPermissionGranted_def
  permissionReported_def pageHidden_def call_def andThen_def tryCatch_def

lemma handleScanSuccess_history:
  "scanHistory (snd (handleScanSuccess c r now ts s)) = scanHistory s \<or>
   (\<exists>e. scanHistory (snd (handleScanSuccess c r now ts s)) = e # take 9 (scanHistory s))"
  by (simp add: scan_defs)

lemma handleScanSuccess_seen:
  "scannedCodesRef s \<subseteq> scannedCodesRef (snd (handleScanSuccess c r now ts s))"
  by (auto simp add: scan_defs)

lemma step_history:
  "scanHistory (step x s) = scanHistory s \<or>
   (\<exists>e. scanHistory (step x s) = e # take 9 (scanHistory s))"
proof (cases "(\<exists>c r now ts. x = ScanSuccess c r now ts) \<or> (\<exists>i. x = TimerFires i)")
  case True
  then show ?thesis
  proof
    assume "\<exists>c r now ts. x = ScanSuccess c r now ts"
    then obtain c r now ts where "x = ScanSuccess c r now ts" by blast
    then show ?thesis using handleScanSuccess_history [of c r now ts s] by simp
  next
    assume "\<exists>i. x = TimerFires i"
    then obtain i where "x = TimerFires i" by blast
    then show ?thesis by (simp add: fireTimer_def autoClear_def)
  qed
next
  case False
  then have "untouched s (step x s)" by (simp add: untouched_step)
  then show ?thesis by (simp add: untouched_def)
qed

lemma step_seen: "scannedCodesRef s \<subseteq> scannedCodesRef (step x s)"
proof (cases "(\<exists>c r now ts. x = ScanSuccess c r now ts) \<or> (\<exists>i. x = TimerFires i)")
  case True
  then show ?thesis
  proof
    assume "\<exists>c r now ts. x = ScanSuccess c r now ts"
    then obtain c r now ts where "x = ScanSuccess c r now ts" by blast
    then show ?thesis using handleScanSuccess_seen [of s c r now ts] by simp
  next
    assume "\<exists>i. x = TimerFires i"
    then obtain i where "x = TimerFires i" by blast
    then show ?thesis by (simp add: fireTimer_def autoClear_def)
  qed
next
  case False
  then have "untouched s (step x s)" by (simp add: untouched_step)
  then show ?thesis by (simp add: untouched_def)
qed

lemma run_seen: "scannedCodesRef s \<subseteq> scannedCodesRef (run xs s)"
proof (induction xs arbitrary: s)
  case Nil
  show ?case by simp
next
  case (Cons x xs)
  have "scannedCodesRef s \<subseteq> scannedCodesRef (step x s)" by (rule step_seen)
  also have "\<dots> \<subseteq> scannedCodesRef (run xs (step x s))" by (rule Cons.IH)
  finally show ?case by simp
qed

lemma seen_not_accepted:
  "c \<in> scannedCodesRef s \<Longrightarrow> fst (handleScanSuccess c r now ts s) \<noteq> Accepted"
  by (simp add: scan_defs)

lemma reachable_run: "reachable s \<Longrightarrow> reachable (run xs s)"
  by (induction xs arbitrary: s) (simp_all add: reachable_step)

lemma reachable_history_length: "reachable s \<Longrightarrow> length (scanHistory s) \<le> 10"
proof (induction rule: reachable.induct)
  case reachable_initial
  show ?case by (simp add: initial_state_def)
next
  case (reachable_step s x)
  from step_history [of x s] reachable_step.IH show ?case by auto
qed

section \<open>The start attempts of a log\<close>

lemma start_attempts_append:
  "start_attempts (xs @ ys) = start_attempts xs @ start_attempts ys"
  by (induction xs rule: start_attempts.induct) simp_all

lemma start_chain_trace:
  "start_attempts (trace (state_of (start_chain ev q s))) = start_attempts (trace s) @
     (if start_result ev (FacingMode ''environment'') = None then [FacingMode ''environment'']
      else if start_result ev (DeviceId ''environment'') = None
           then [FacingMode ''environment'', DeviceId ''environment'']
           else [FacingMode ''environment'', DeviceId ''environment'', FacingMode ''user''])"
  by (auto simp: start_chain_def call_def tryCatch_def Let_def start_attempts_append
        split: option.splits)

lemma start_chain_outcome:
  "(\<exists>t. start_chain ev q s = Normal t) \<longleftrightarrow>
     (start_result ev (FacingMode ''environment'') = None \<or>
      start_result ev (DeviceId ''environment'') = None \<or>
      start_result ev (FacingMode ''user'') = None)"
  by (auto simp: start_chain_def call_def tryCatch_def Let_def split: option.splits)

lemma scanner_cleanup_attempts:
  "start_attempts (trace (state_of (scanner_cleanup ev q s))) = start_attempts (trace s)"
  by (auto simp: scanner_cleanup_def call_def andThen_def tryCatch_def Let_def
        start_attempts_append split: option.splits sum.splits)

lemma startScanner_catch_attempts:
  "start_attempts (trace (state_of (startScanner_catch ev e s))) = start_attempts (trace s) \<and>
   \<not> isScanning (state_of (startScanner_catch ev e s))"
proof (cases "html5QrCodeRef s")
  case None
  then show ?thesis by (simp add: startScanner_catch_def Let_def)
next
  case (Some q)
  let ?s3 = "s\<lparr> error := Some (if err_message e = []
                                  then ''Failed to start camera. Please check permissions.''
                                  else err_message e),
                 isScanning := False, isInitializing := False \<rparr>"
  have eq: "startScanner_catch ev e s =
         andThen (scanner_cleanup ev q ?s3) (\<lambda>s4. Normal (s4\<lparr> html5QrCodeRef := None \<rparr>))"
    using Some by (simp add: startScanner_catch_def Let_def)
  have scan: "\<not> isScanning (state_of (scanner_cleanup ev q ?s3))"
    by (auto simp: scanner_cleanup_def call_def andThen_def tryCatch_def Let_def
          split: option.splits sum.splits)
  from scanner_cleanup_attempts [of ev q ?s3] scan show ?thesis
    unfolding eq by (cases "scanner_cleanup ev q ?s3") (simp_all add: andThen_def)
qed

section \<open>C1: classification precedence\<close>

text \<open>
  C1. For every raw scan event the handler follows the ledger's precedence:
  when the code equals the last sighting's code and less than 2000 ms have
  passed since, the outcome is Suppressed and the state is returned as it was;
  otherwise the last sighting becomes the event's code and time, and the
  outcome is Duplicate when the code is already among the seen codes (which
  then stay as they are), else the code is added to the seen codes and the
  outcome is Accepted.
\<close>

theorem C1_classification_precedence:
  "(ls_code (lastScanRef s) = Some c \<and> now - ls_timestamp (lastScanRef s) < 2000
      \<longrightarrow> handleScanSuccess c r now ts s = (Suppressed, s)) \<and>
   (\<not> (ls_code (lastScanRef s) = Some c \<and> now - ls_timestamp (lastScanRef s) < 2000)
      \<longrightarrow> lastScanRef (snd (handleScanSuccess c r now ts s))
            = \<lparr> ls_code = Some c, ls_timestamp = now \<rparr> \<and>
          (c \<in> scannedCodesRef s
             \<longrightarrow> fst (handleScanSuccess c r now ts s) = Duplicate \<and>
                 scannedCodesRef (snd (handleScanSuccess c r now ts s)) = scannedCodesRef s) \<and>
          (c \<notin> scannedCodesRef s
             \<longrightarrow> fst (handleScanSuccess c r now ts s) = Accepted \<and>
                 scannedCodesRef (snd (handleScanSuccess c r now ts s))
                   = insert c (scannedCodesRef s)))"
  by (simp add: handleScanSuccess_def DEBOUNCE_TIME_def Let_def setTimeout_autoClear_def
        triggerErrorFeedback_def triggerSuccessFeedback_def)

theorem C1_classification_precedence_witness:
  "handleScanSuccess ''A'' ''r'' 500 ''t''
      (initial_state\<lparr> lastScanRef := \<lparr> ls_code = Some ''A'', ls_timestamp = 0 \<rparr>,
                      scannedCodesRef := {''A''} \<rparr>)
     = (Suppressed,
        initial_state\<lparr> lastScanRef := \<lparr> ls_code = Some ''A'', ls_timestamp = 0 \<rparr>,
                      scannedCodesRef := {''A''} \<rparr>) \<and>
   fst (handleScanSuccess ''A'' ''r'' 2500 ''t''
      (initial_state\<lparr> lastScanRef := \<lparr> ls_code = Some ''A'', ls_timestamp = 0 \<rparr>,
                      scannedCodesRef := {''A''} \<rparr>)) = Duplicate \<and>
   fst (handleScanSuccess ''B'' ''r'' 2600 ''t''
      (initial_state\<lparr> lastScanRef := \<lparr> ls_code = Some ''A'', ls_timestamp = 0 \<rparr>,
                      scannedCodesRef := {''A''} \<rparr>)) = Accepted \<and>
   scannedCodesRef (snd (handleScanSuccess ''B'' ''r'' 2600 ''t''
      (initial_state\<lparr> lastScanRef := \<lparr> ls_code = Some ''A'', ls_timestamp = 0 \<rparr>,
                      scannedCodesRef := {''A''} \<rparr>))) = {''B'', ''A''}"
  using
    C1_classification_precedence
      [of "initial_state\<lparr> lastScanRef := \<lparr> ls_code = Some ''A'', ls_timestamp = 0 \<rparr>,
                          scannedCodesRef := {''A''} \<rparr>" "''A''" 500 "''r''" "''t''"]
    C1_classification_precedence
      [of "initial_state\<lparr> lastScanRef := \<lparr> ls_code = Some ''A'', ls_timestamp = 0 \<rparr>,
                          scannedCodesRef := {''A''} \<rparr>" "''A''" 2500 "''r''" "''t''"]
    C1_classification_precedence
      [of "initial_state\<lparr> lastScanRef := \<lparr> ls_code = Some ''A'', ls_timestamp = 0 \<rparr>,
                          scannedCodesRef := {''A''} \<rparr>" "''B''" 2600 "''r''" "''t''"]
  by (simp add: initial_state_def)

section \<open>C2: what the history records\<close>

text \<open>
  C2. The specification says that every Accepted and every Duplicate outcome is put into
  the history, so that after A at 0 ms, A at 500 ms, A at 2500 ms and B at
  2600 ms the history is B (Accepted), A (Duplicate), A (Accepted). The
  handler classifies the four events as specified, but only its Accepted
  branch writes the history: after the four events the history has two
  entries, B and A, both not marked as duplicates.
\<close>

theorem C2_scenario_history_has_two_entries:
  "fst (handleScanSuccess ''A'' ''rawA'' 0 ''10:00:00'' initial_state) = Accepted \<and>
   fst (handleScanSuccess ''A'' ''rawA'' 500 ''10:00:00''
          (run [ScanSuccess ''A'' ''rawA'' 0 ''10:00:00''] initial_state)) = Suppressed \<and>
   fst (handleScanSuccess ''A'' ''rawA'' 2500 ''10:00:02''
          (run [ScanSuccess ''A'' ''rawA'' 0 ''10:00:00'',
                ScanSuccess ''A'' ''rawA'' 500 ''10:00:00''] initial_state)) = Duplicate \<and>
   fst (handleScanSuccess ''B'' ''rawB'' 2600 ''10:00:02''
          (run [ScanSuccess ''A'' ''rawA'' 0 ''10:00:00'',
                ScanSuccess ''A'' ''rawA'' 500 ''10:00:00'',
                ScanSuccess ''A'' ''rawA'' 2500 ''10:00:02''] initial_state)) = Accepted \<and>
   scanHistory (run [ScanSuccess ''A'' ''rawA'' 0 ''10:00:00'',
                     ScanSuccess ''A'' ''rawA'' 500 ''10:00:00'',
                     ScanSuccess ''A'' ''rawA'' 2500 ''10:00:02'',
                     ScanSuccess ''B'' ''rawB'' 2600 ''10:00:02''] initial_state)
     = [\<lparr> he_text = ''B'', he_timestamp = ''10:00:02'', he_isDuplicate = False \<rparr>,
        \<lparr> he_text = ''A'', he_timestamp = ''10:00:00'', he_isDuplicate = False \<rparr>]"
  by (simp add: handleScanSuccess_def DEBOUNCE_TIME_def Let_def setTimeout_autoClear_def
        triggerErrorFeedback_def triggerSuccessFeedback_def initial_state_def)

section \<open>C3: no operation clears the session memory\<close>

text \<open>
  C3, as specified: a session reset clears the seen codes and the history, and a
  code accepted before it is Accepted again afterwards. The component has no
  such operation; stopping is the only end of a session it has. A is accepted,
  scanning is stopped: the seen codes still hold A and the history still holds
  its entry. Scanning is started again and A is sighted a minute later: the
  outcome is Duplicate.
\<close>

theorem C3_stop_keeps_memory_counterexample:
  "fst (handleScanSuccess ''A'' ''rawA'' 0 ''10:00:00''
          (run [RequestCameraPermission good_env] initial_state)) = Accepted \<and>
   scannedCodesRef (run [RequestCameraPermission good_env,
                         ScanSuccess ''A'' ''rawA'' 0 ''10:00:00'',
                         StopScanning good_env] initial_state) = {''A''} \<and>
   scanHistory (run [RequestCameraPermission good_env,
                     ScanSuccess ''A'' ''rawA'' 0 ''10:00:00'',
                     StopScanning good_env] initial_state)
     = [\<lparr> he_text = ''A'', he_timestamp = ''10:00:00'', he_isDuplicate = False \<rparr>] \<and>
   fst (handleScanSuccess ''A'' ''rawA'' 60000 ''10:01:00''
          (run [RequestCameraPermission good_env,
                ScanSuccess ''A'' ''rawA'' 0 ''10:00:00'',
                StopScanning good_env,
                RequestCameraPermission good_env] initial_state)) = Duplicate"
  by (simp add: handler_defs scan_defs good_env_def initial_state_def)

text \<open>
  C3, amended: no operation of the component clears the seen codes or the
  history. Every operation leaves the seen codes a superset of what they were
  and a non-empty history non-empty; stopping leaves both exactly as they
  were; so a code that is among the seen codes is never classified Accepted
  again, whatever operations (stops and restarts included) come in between.
\<close>

theorem C3_memory_never_cleared:
  "scannedCodesRef s \<subseteq> scannedCodesRef (step x s) \<and>
   (scanHistory s \<noteq> [] \<longrightarrow> scanHistory (step x s) \<noteq> []) \<and>
   scannedCodesRef (state_of (stopScanning ev s)) = scannedCodesRef s \<and>
   scanHistory (state_of (stopScanning ev s)) = scanHistory s \<and>
   (c \<in> scannedCodesRef s \<longrightarrow> fst (handleScanSuccess c r now ts (run xs s)) \<noteq> Accepted)"
proof -
  have a: "scannedCodesRef s \<subseteq> scannedCodesRef (step x s)" by (rule step_seen)
  have b: "scanHistory s \<noteq> [] \<longrightarrow> scanHistory (step x s) \<noteq> []"
    using step_history [of x s] by auto
  have "untouched s (state_of (stopScanning ev s))"
    by (simp add: untouched_stopScanning untouched_refl)
  then have c: "scannedCodesRef (state_of (stopScanning ev s)) = scannedCodesRef s \<and>
                scanHistory (state_of (stopScanning ev s)) = scanHistory s"
    by (simp add: untouched_def)
  have d: "c \<in> scannedCodesRef s \<longrightarrow> fst (handleScanSuccess c r now ts (run xs s)) \<noteq> Accepted"
    using run_seen [of s xs] seen_not_accepted by blast
  from a b c d show ?thesis by simp
qed

theorem C3_memory_never_cleared_witness:
  "scanHistory (run [ScanSuccess ''A'' ''rawA'' 0 ''10:00:00''] initial_state) \<noteq> [] \<and>
   ''A'' \<in> scannedCodesRef (run [ScanSuccess ''A'' ''rawA'' 0 ''10:00:00''] initial_state) \<and>
   scanHistory (step (StopScanning good_env)
        (run [ScanSuccess ''A'' ''rawA'' 0 ''10:00:00''] initial_state)) \<noteq> [] \<and>
   fst (handleScanSuccess ''A'' ''rawA'' 60000 ''10:01:00''
        (run [StopScanning good_env, RequestCameraPermission good_env]
           (run [ScanSuccess ''A'' ''rawA'' 0 ''10:00:00''] initial_state))) \<noteq> Accepted"
proof -
  let ?s = "run [ScanSuccess ''A'' ''rawA'' 0 ''10:00:00''] initial_state"
  have h1: "scanHistory ?s \<noteq> []" by (simp add: scan_defs initial_state_def)
  have h2: "''A'' \<in> scannedCodesRef ?s" by (simp add: scan_defs initial_state_def)
  from C3_memory_never_cleared [of ?s "StopScanning good_env" good_env "''A''" "''rawA''" 60000
         "''10:01:00''" "[StopScanning good_env, RequestCameraPermission good_env]"] h1 h2
  show ?thesis by blast
qed

section \<open>C4: a start that resolves after a stop\<close>

text \<open>
  C4, as specified: a decoder start that resolves after the operator's stop
  checks the session state and does nothing. The scanner runs, the page is
  hidden and comes back with a dead camera stream, the restart begins; the
  operator presses stop while the new decoder's start is pending, and the
  decoder rejects that stop. When the start resolves, the code after the
  \<open>await\<close> runs all the same: the session is scanning, with the new decoder
  held and started. If the decoder instead lets that stop resolve, the
  session is scanning as well, and the reference to the decoder that was
  started is gone.
\<close>

theorem C4_stale_start_ends_scanning_counterexample:
  "isScanning (run [RequestCameraPermission good_env, PageHidden,
                    RestartDuringStop stop_rejected_env good_env dead_camera_env]
                 initial_state) \<and>
   wasScanningRef (run [RequestCameraPermission good_env, PageHidden,
                        RestartDuringStop stop_rejected_env good_env dead_camera_env]
                     initial_state) \<and>
   html5QrCodeRef (run [RequestCameraPermission good_env, PageHidden,
                        RestartDuringStop stop_rejected_env good_env dead_camera_env]
                     initial_state) = Some 1 \<and>
   trace (run [RequestCameraPermission good_env, PageHidden,
               RestartDuringStop stop_rejected_env good_env dead_camera_env] initial_state)
     = [GetUserMedia, DecoderStart 0 (FacingMode ''environment''), DecoderStop 0,
        DecoderClear 0, DecoderStart 1 (FacingMode ''environment''), DecoderStop 1] \<and>
   isScanning (run [RequestCameraPermission good_env, PageHidden,
                    RestartDuringStop good_env good_env dead_camera_env] initial_state) \<and>
   html5QrCodeRef (run [RequestCameraPermission good_env, PageHidden,
                        RestartDuringStop good_env good_env dead_camera_env]
                     initial_state) = None"
  by (simp add: handler_defs Let_def good_env_def stop_rejected_env_def dead_camera_env_def
        initial_state_def)

text \<open>
  C4, amended: the resolution of a decoder start does not look at the session
  state. Whenever the container exists and one of the three start attempts
  resolves, \<open>startScanner\<close> completes by running lines 269-271 on the state
  that the handlers which ran in the meantime (a stop among them) left: the
  session is scanning, not initializing, and marked as having been scanning.
\<close>

theorem C4_start_resolution_unconditional:
  assumes "readerElement ev"
    and "start_result ev (FacingMode ''environment'') = None \<or>
         start_result ev (DeviceId ''environment'') = None \<or>
         start_result ev (FacingMode ''user'') = None"
  shows "\<exists>u. startScanner_with between ev s = Normal (startScanner_started (between u)) \<and>
             isScanning (startScanner_started (between u)) \<and>
             \<not> isInitializing (startScanner_started (between u)) \<and>
             wasScanningRef (startScanner_started (between u))"
proof -
  from assms(2) have "\<exists>t. start_chain ev (scannersCreated s)
          (s\<lparr> html5QrCodeRef := Some (scannersCreated s),
              scannersCreated := Suc (scannersCreated s) \<rparr>) = Normal t"
    by (simp add: start_chain_outcome)
  then obtain u where
    u: "start_chain ev (scannersCreated s)
          (s\<lparr> html5QrCodeRef := Some (scannersCreated s),
              scannersCreated := Suc (scannersCreated s) \<rparr>) = Normal u"
    by blast
  have "startScanner_with between ev s = Normal (startScanner_started (between u))"
    using assms(1) u
    by (simp add: startScanner_with_def startScanner_prepare_def andThen_def tryCatch_def)
  then show ?thesis by (auto simp: startScanner_started_def)
qed

theorem C4_start_resolution_unconditional_witness:
  "readerElement good_env \<and> start_result good_env (FacingMode ''environment'') = None \<and>
   isScanning (state_of (startScanner_with (\<lambda>t. state_of (stopScanning good_env t))
                           good_env initial_state)) \<and>
   wasScanningRef (state_of (startScanner_with (\<lambda>t. state_of (stopScanning good_env t))
                               good_env initial_state))"
proof -
  have h1: "readerElement good_env" by (simp add: good_env_def)
  have h2: "start_result good_env (FacingMode ''environment'') = None"
    by (simp add: good_env_def)
  then have h3: "start_result good_env (FacingMode ''environment'') = None \<or>
         start_result good_env (DeviceId ''environment'') = None \<or>
         start_result good_env (FacingMode ''user'') = None" by simp
  from C4_start_resolution_unconditional
         [OF h1 h3, of "\<lambda>t. state_of (stopScanning good_env t)" initial_state]
  obtain u where
    "startScanner_with (\<lambda>t. state_of (stopScanning good_env t)) good_env initial_state
        = Normal (startScanner_started (state_of (stopScanning good_env u)))"
    and "isScanning (startScanner_started (state_of (stopScanning good_env u)))"
    and "wasScanningRef (startScanner_started (state_of (stopScanning good_env u)))"
    by blast
  with h1 h2 show ?thesis by simp
qed

section \<open>C5: the history is bounded and most-recent-first\<close>

text \<open>
  C5. In every reachable state the history holds at most 10 entries; every
  operation either leaves it as it is or puts one entry in front of its first
  nine; and an event classified Suppressed leaves it as it is, so no
  Suppressed outcome becomes an entry.
\<close>

theorem C5_history_bounded_recent_first:
  assumes "reachable s"
  shows "length (scanHistory s) \<le> 10 \<and>
         (\<forall>x. scanHistory (step x s) = scanHistory s \<or>
              (\<exists>e. scanHistory (step x s) = e # take 9 (scanHistory s))) \<and>
         (\<forall>c r now ts. fst (handleScanSuccess c r now ts s) = Suppressed
              \<longrightarrow> scanHistory (snd (handleScanSuccess c r now ts s)) = scanHistory s)"
proof -
  have "\<forall>c r now ts. fst (handleScanSuccess c r now ts s) = Suppressed
              \<longrightarrow> scanHistory (snd (handleScanSuccess c r now ts s)) = scanHistory s"
    by (simp add: scan_defs)
  with reachable_history_length [OF assms] step_history show ?thesis by blast
qed

theorem C5_history_bounded_recent_first_witness:
  "reachable (run [ScanSuccess ''T01'' ''r'' 0 ''10:00:00'', ScanSuccess ''T02'' ''r'' 1000 ''10:00:01'',
                   ScanSuccess ''T03'' ''r'' 2000 ''10:00:02'', ScanSuccess ''T04'' ''r'' 3000 ''10:00:03'',
                   ScanSuccess ''T05'' ''r'' 4000 ''10:00:04'', ScanSuccess ''T06'' ''r'' 5000 ''10:00:05'',
                   ScanSuccess ''T07'' ''r'' 6000 ''10:00:06'', ScanSuccess ''T08'' ''r'' 7000 ''10:00:07'',
                   ScanSuccess ''T09'' ''r'' 8000 ''10:00:08'', ScanSuccess ''T10'' ''r'' 9000 ''10:00:09'',
                   ScanSuccess ''T11'' ''r'' 10000 ''10:00:10''] initial_state) \<and>
   length (scanHistory
            (run [ScanSuccess ''T01'' ''r'' 0 ''10:00:00'', ScanSuccess ''T02'' ''r'' 1000 ''10:00:01'',
                  ScanSuccess ''T03'' ''r'' 2000 ''10:00:02'', ScanSuccess ''T04'' ''r'' 3000 ''10:00:03'',
                  ScanSuccess ''T05'' ''r'' 4000 ''10:00:04'', ScanSuccess ''T06'' ''r'' 5000 ''10:00:05'',
                  ScanSuccess ''T07'' ''r'' 6000 ''10:00:06'', ScanSuccess ''T08'' ''r'' 7000 ''10:00:07'',
                  ScanSuccess ''T09'' ''r'' 8000 ''10:00:08'', ScanSuccess ''T10'' ''r'' 9000 ''10:00:09'',
                  ScanSuccess ''T11'' ''r'' 10000 ''10:00:10''] initial_state)) \<le> 10 \<and>
   map he_text (scanHistory
            (run [ScanSuccess ''T01'' ''r'' 0 ''10:00:00'', ScanSuccess ''T02'' ''r'' 1000 ''10:00:01'',
                  ScanSuccess ''T03'' ''r'' 2000 ''10:00:02'', ScanSuccess ''T04'' ''r'' 3000 ''10:00:03'',
                  ScanSuccess ''T05'' ''r'' 4000 ''10:00:04'', ScanSuccess ''T06'' ''r'' 5000 ''10:00:05'',
                  ScanSuccess ''T07'' ''r'' 6000 ''10:00:06'', ScanSuccess ''T08'' ''r'' 7000 ''10:00:07'',
                  ScanSuccess ''T09'' ''r'' 8000 ''10:00:08'', ScanSuccess ''T10'' ''r'' 9000 ''10:00:09'',
                  ScanSuccess ''T11'' ''r'' 10000 ''10:00:10''] initial_state))
     = [''T11'', ''T10'', ''T09'', ''T08'', ''T07'', ''T06'', ''T05'', ''T04'', ''T03'', ''T02'']"
proof -
  let ?ops = "[ScanSuccess ''T01'' ''r'' 0 ''10:00:00'', ScanSuccess ''T02'' ''r'' 1000 ''10:00:01'',
               ScanSuccess ''T03'' ''r'' 2000 ''10:00:02'', ScanSuccess ''T04'' ''r'' 3000 ''10:00:03'',
               ScanSuccess ''T05'' ''r'' 4000 ''10:00:04'', ScanSuccess ''T06'' ''r'' 5000 ''10:00:05'',
               ScanSuccess ''T07'' ''r'' 6000 ''10:00:06'', ScanSuccess ''T08'' ''r'' 7000 ''10:00:07'',
               ScanSuccess ''T09'' ''r'' 8000 ''10:00:08'', ScanSuccess ''T10'' ''r'' 9000 ''10:00:09'',
               ScanSuccess ''T11'' ''r'' 10000 ''10:00:10'']"
  have r: "reachable (run ?ops initial_state)"
    by (rule reachable_run [OF reachable_initial])
  have m: "map he_text (scanHistory (run ?ops initial_state))
     = [''T11'', ''T10'', ''T09'', ''T08'', ''T07'', ''T06'', ''T05'', ''T04'', ''T03'', ''T02'']"
    by (simp add: scan_defs initial_state_def)
  from C5_history_bounded_recent_first [OF r] r m show ?thesis by simp
qed

section \<open>C6: the auto-clear timeouts\<close>

text \<open>
  C6. The specification says that a new outcome cancels or supersedes the
  pending auto-clear timer and starts a fresh one of 2000 ms, so that an old
  timer never clears a newer result early; the comments of lines 414 and 437
  say the same of the code: a message is shown for 2 seconds. The handler
  starts the fresh timeout but keeps no handle on the old one and never
  cancels it. A is accepted at 0 ms and B at 1500 ms: both timeouts are
  pending, due at 2000 and 3500, and B is on display. The timeout of A fires
  when it is due, 500 ms after B was put on display: the display and the
  status are empty, while the timeout that was started for B is still
  pending.
\<close>

theorem C6_old_timer_clears_new_result_early:
  "timers (run [ScanSuccess ''A'' ''rawA'' 0 ''10:00:00'',
                ScanSuccess ''B'' ''rawB'' 1500 ''10:00:01''] initial_state) = [2000, 3500] \<and>
   map_option sd_text
     (scannedData (run [ScanSuccess ''A'' ''rawA'' 0 ''10:00:00'',
                        ScanSuccess ''B'' ''rawB'' 1500 ''10:00:01''] initial_state)) = Some ''B'' \<and>
   scannedData (run [ScanSuccess ''A'' ''rawA'' 0 ''10:00:00'',
                     ScanSuccess ''B'' ''rawB'' 1500 ''10:00:01'',
                     TimerFires 0] initial_state) = None \<and>
   scanStatus (run [ScanSuccess ''A'' ''rawA'' 0 ''10:00:00'',
                    ScanSuccess ''B'' ''rawB'' 1500 ''10:00:01'',
                    TimerFires 0] initial_state) = None \<and>
   timers (run [ScanSuccess ''A'' ''rawA'' 0 ''10:00:00'',
                ScanSuccess ''B'' ''rawB'' 1500 ''10:00:01'',
                TimerFires 0] initial_state) = [3500]"
  by (simp add: scan_defs initial_state_def fireTimer_def autoClear_def)

section \<open>C7: the insecure origin\<close>

text \<open>
  C7. On an origin that is not HTTPS and whose host is neither localhost nor
  127.0.0.1, asking for the camera ends with the HTTPS_REQUIRED error and the
  permission marked denied, and no call reaches the camera or the decoder.
  That error is not the one a denial on a secure origin gives: there the
  camera is asked, and the error is the permission-denied message.
\<close>

theorem C7_insecure_origin_error:
  "(protocol ev \<noteq> ''https:'' \<and> hostname ev \<noteq> ''localhost'' \<and> hostname ev \<noteq> ''127.0.0.1'' \<longrightarrow>
      (\<exists>t h. requestCameraPermission ev s = Normal t \<and>
             error t = Some (''HTTPS_REQUIRED:'' @ h) \<and>
             error t \<noteq> Some permission_denied_message \<and>
             permissionStatus t = Denied \<and> \<not> isSecureContext t \<and>
             trace t = trace s)) \<and>
   ((protocol ev = ''https:'' \<or> hostname ev = ''localhost'' \<or> hostname ev = ''127.0.0.1'') \<and>
    mediaDevices ev \<and> getUserMedia_result ev = Some e \<and>
    (err_name e = ''NotAllowedError'' \<or> err_name e = ''PermissionDeniedError'') \<and>
    \<not> startsWith (err_message e) ''HTTPS_REQUIRED'' \<longrightarrow>
      (\<exists>t. requestCameraPermission ev s = Normal t \<and>
           error t = Some permission_denied_message \<and>
           permissionStatus t = Denied \<and> isSecureContext t \<and>
           trace t = trace s @ [GetUserMedia]))"
  by (auto simp: requestCameraPermission_def requestCameraPermission_catch_def
        checkSecureContext_def startsWith_def permission_denied_message_def
        call_def andThen_def tryCatch_def Let_def)

theorem C7_insecure_origin_error_witness:
  "protocol (good_env\<lparr> protocol := ''http:'', hostname := ''192.168.1.20'' \<rparr>) \<noteq> ''https:'' \<and>
   hostname (good_env\<lparr> protocol := ''http:'', hostname := ''192.168.1.20'' \<rparr>) \<noteq> ''localhost'' \<and>
   hostname (good_env\<lparr> protocol := ''http:'', hostname := ''192.168.1.20'' \<rparr>) \<noteq> ''127.0.0.1'' \<and>
   error (state_of (requestCameraPermission
            (good_env\<lparr> protocol := ''http:'', hostname := ''192.168.1.20'' \<rparr>) initial_state))
     = Some ''HTTPS_REQUIRED:'' \<and>
   trace (state_of (requestCameraPermission
            (good_env\<lparr> protocol := ''http:'', hostname := ''192.168.1.20'' \<rparr>) initial_state)) = [] \<and>
   error (state_of (requestCameraPermission
            (good_env\<lparr> getUserMedia_result :=
                 Some \<lparr> err_name = ''NotAllowedError'', err_message = ''Permission denied'' \<rparr> \<rparr>)
            initial_state))
     = Some permission_denied_message"
proof -
  let ?ev1 = "good_env\<lparr> protocol := ''http:'', hostname := ''192.168.1.20'' \<rparr>"
  let ?e = "\<lparr> err_name = ''NotAllowedError'', err_message = ''Permission denied'' \<rparr>"
  let ?ev2 = "good_env\<lparr> getUserMedia_result := Some ?e \<rparr>"
  have h1: "protocol ?ev1 \<noteq> ''https:'' \<and> hostname ?ev1 \<noteq> ''localhost'' \<and>
            hostname ?ev1 \<noteq> ''127.0.0.1''"
    by (simp add: good_env_def)
  have h2: "(protocol ?ev2 = ''https:'' \<or> hostname ?ev2 = ''localhost'' \<or>
             hostname ?ev2 = ''127.0.0.1'') \<and>
            mediaDevices ?ev2 \<and> getUserMedia_result ?ev2 = Some ?e \<and>
            (err_name ?e = ''NotAllowedError'' \<or> err_name ?e = ''PermissionDeniedError'') \<and>
            \<not> startsWith (err_message ?e) ''HTTPS_REQUIRED''"
    by (simp add: good_env_def startsWith_def)
  have v: "error (state_of (requestCameraPermission ?ev1 initial_state)) = Some ''HTTPS_REQUIRED:''"
    by (simp add: requestCameraPermission_def requestCameraPermission_catch_def
          checkSecureContext_def startsWith_def element_text_def tryCatch_def Let_def
          good_env_def initial_state_def)
  from C7_insecure_origin_error [of ?ev1 initial_state ?e]
       C7_insecure_origin_error [of ?ev2 initial_state ?e] h1 h2 v
  show ?thesis by (auto simp: initial_state_def)
qed

section \<open>C8: the order of the camera selectors\<close>

text \<open>
  C8. When the container exists, \<open>startScanner\<close> asks the decoder to start
  with the environment-facing selector in object form first; with the string
  ''environment'' only when that failed; with the user-facing selector only
  when both failed; and with nothing after the first attempt that resolves.
  The session is scanning afterwards exactly when one attempt resolved.
\<close>

theorem C8_selector_order:
  assumes "readerElement ev"
  shows "start_attempts (trace (state_of (startScanner ev s))) = start_attempts (trace s) @
           (if start_result ev (FacingMode ''environment'') = None then [FacingMode ''environment'']
            else if start_result ev (DeviceId ''environment'') = None
                 then [FacingMode ''environment'', DeviceId ''environment'']
                 else [FacingMode ''environment'', DeviceId ''environment'', FacingMode ''user'']) \<and>
         (isScanning (state_of (startScanner ev s)) \<longleftrightarrow>
            start_result ev (FacingMode ''environment'') = None \<or>
            start_result ev (DeviceId ''environment'') = None \<or>
            start_result ev (FacingMode ''user'') = None)"
proof -
  let ?s1 = "s\<lparr> html5QrCodeRef := Some (scannersCreated s),
                 scannersCreated := Suc (scannersCreated s) \<rparr>"
  let ?c = "start_chain ev (scannersCreated s) ?s1"
  have tr: "trace ?s1 = trace s" by simp
  show ?thesis
  proof (cases ?c)
    case (Normal u)
    then have "startScanner ev s = Normal (startScanner_started u)"
      using assms
      by (simp add: startScanner_def startScanner_with_def startScanner_prepare_def
            andThen_def tryCatch_def)
    moreover have "trace (startScanner_started u) = trace u"
      by (simp add: startScanner_started_def)
    moreover have "isScanning (startScanner_started u)"
      by (simp add: startScanner_started_def)
    moreover from Normal have "state_of ?c = u" by simp
    ultimately show ?thesis
      using start_chain_trace [of ev "scannersCreated s" ?s1]
        start_chain_outcome [of ev "scannersCreated s" ?s1] Normal tr
      by auto
  next
    case (Throw e u)
    then have "startScanner ev s = startScanner_catch ev e u"
      using assms
      by (simp add: startScanner_def startScanner_with_def startScanner_prepare_def
            andThen_def tryCatch_def)
    moreover from Throw have "state_of ?c = u" by simp
    ultimately show ?thesis
      using start_chain_trace [of ev "scannersCreated s" ?s1]
        start_chain_outcome [of ev "scannersCreated s" ?s1] Throw tr
        startScanner_catch_attempts [of ev e u]
      by auto
  qed
qed

theorem C8_selector_order_witness:
  "readerElement (good_env\<lparr> start_result := (\<lambda>sel. if sel = FacingMode ''environment''
        then Some \<lparr> err_name = ''NotFoundError'', err_message = ''no rear camera'' \<rparr>
        else None) \<rparr>) \<and>
   start_attempts (trace (state_of (startScanner
       (good_env\<lparr> start_result := (\<lambda>sel. if sel = FacingMode ''environment''
          then Some \<lparr> err_name = ''NotFoundError'', err_message = ''no rear camera'' \<rparr>
          else None) \<rparr>)
       initial_state)))
     = [FacingMode ''environment'', DeviceId ''environment''] \<and>
   isScanning (state_of (startScanner
       (good_env\<lparr> start_result := (\<lambda>sel. if sel = FacingMode ''environment''
          then Some \<lparr> err_name = ''NotFoundError'', err_message = ''no rear camera'' \<rparr>
          else None) \<rparr>)
       initial_state))"
proof -
  let ?ev = "good_env\<lparr> start_result := (\<lambda>sel. if sel = FacingMode ''environment''
        then Some \<lparr> err_name = ''NotFoundError'', err_message = ''no rear camera'' \<rparr>
        else None) \<rparr>"
  have h: "readerElement ?ev" by (simp add: good_env_def)
  from C8_selector_order [OF h, of initial_state] h show ?thesis
    by (simp add: initial_state_def)
qed

section \<open>C9: stopping twice\<close>

text \<open>
  C9, as specified: stop is idempotent and never an error, and after it the
  session is not scanning and the handle is released. The scanner runs and the
  decoder rejects the stop: after one stop, and after a second one that is
  rejected too, the session is still scanning and the decoder is still held.
\<close>

theorem C9_rejected_stop_keeps_scanning_counterexample:
  "isScanning (run [RequestCameraPermission good_env,
                    StopScanning stop_rejected_env] initial_state) \<and>
   html5QrCodeRef (run [RequestCameraPermission good_env,
                        StopScanning stop_rejected_env] initial_state) = Some 0 \<and>
   isScanning (run [RequestCameraPermission good_env, StopScanning stop_rejected_env,
                    StopScanning stop_rejected_env] initial_state) \<and>
   html5QrCodeRef (run [RequestCameraPermission good_env, StopScanning stop_rejected_env,
                        StopScanning stop_rejected_env] initial_state) = Some 0"
  by (simp add: handler_defs Let_def good_env_def stop_rejected_env_def initial_state_def)

text \<open>
  C9, amended: stop never raises, whatever the decoder answers. With no
  decoder held (already stopped, or never started) it calls nothing and only
  clears the scanning flags, so on a stopped session it changes nothing. When
  no decoder is held or the decoder's stop and clear both resolve, a second
  stop changes nothing more, and the session is not scanning and holds no
  decoder. When a decoder is held and its stop or clear throws, the error is
  swallowed, the scanning flag and the held decoder stay as they were, and
  only the was-scanning mark is cleared.
\<close>

theorem C9_stop_never_raises:
  "(\<exists>t. stopScanning ev s = Normal t) \<and>
   (html5QrCodeRef s = None \<longrightarrow>
      stopScanning ev s = Normal (s\<lparr> isScanning := False, wasScanningRef := False \<rparr>)) \<and>
   (html5QrCodeRef s = None \<and> \<not> isScanning s \<and> \<not> wasScanningRef s \<longrightarrow>
      stopScanning ev s = Normal s) \<and>
   (html5QrCodeRef s = None \<or> (stop_result ev = None \<and> clear_result ev = None) \<longrightarrow>
      stopScanning ev' (state_of (stopScanning ev s)) = stopScanning ev s \<and>
      \<not> isScanning (state_of (stopScanning ev s)) \<and>
      html5QrCodeRef (state_of (stopScanning ev s)) = None) \<and>
   (html5QrCodeRef s \<noteq> None \<and> (stop_result ev \<noteq> None \<or> clear_result ev \<noteq> None) \<longrightarrow>
      isScanning (state_of (stopScanning ev s)) = isScanning s \<and>
      html5QrCodeRef (state_of (stopScanning ev s)) = html5QrCodeRef s \<and>
      \<not> wasScanningRef (state_of (stopScanning ev s)))"
  by (auto simp: stopScanning_def call_def andThen_def tryCatch_def Let_def
        split: option.splits)

theorem C9_stop_never_raises_witness:
  "html5QrCodeRef initial_state = None \<and> \<not> isScanning initial_state \<and>
   \<not> wasScanningRef initial_state \<and>
   stopScanning stop_rejected_env initial_state = Normal initial_state \<and>
   stop_result good_env = None \<and> clear_result good_env = None \<and>
   stopScanning good_env (state_of (stopScanning good_env
        (run [RequestCameraPermission good_env] initial_state)))
     = stopScanning good_env (run [RequestCameraPermission good_env] initial_state) \<and>
   html5QrCodeRef (state_of (stopScanning good_env
        (run [RequestCameraPermission good_env] initial_state))) = None \<and>
   html5QrCodeRef (run [RequestCameraPermission good_env] initial_state) \<noteq> None \<and>
   stop_result stop_rejected_env \<noteq> None \<and>
   html5QrCodeRef (state_of (stopScanning stop_rejected_env
        (run [RequestCameraPermission good_env] initial_state))) = Some 0"
proof -
  let ?s = "run [RequestCameraPermission good_env] initial_state"
  have h1: "html5QrCodeRef initial_state = None \<and> \<not> isScanning initial_state \<and>
            \<not> wasScanningRef initial_state"
    by (simp add: initial_state_def)
  have h2: "stop_result good_env = None \<and> clear_result good_env = None"
    by (simp add: good_env_def)
  have h3: "html5QrCodeRef ?s = Some 0"
    by (simp add: handler_defs Let_def good_env_def initial_state_def)
  have h4: "stop_result stop_rejected_env \<noteq> None"
    by (simp add: stop_rejected_env_def good_env_def)
  from C9_stop_never_raises [of stop_rejected_env initial_state good_env]
       C9_stop_never_raises [of good_env ?s good_env]
       C9_stop_never_raises [of stop_rejected_env ?s good_env] h1 h2 h3 h4
  show ?thesis by simp
qed

section \<open>C10: a debounced event\<close>

text \<open>
  C10. A debounced event has no effect at all: when the event's code equals
  the last sighting's code and less than 2000 ms have passed, the handler
  returns the state it was given, so the last sighting, the seen codes, the
  history and the displayed result are unchanged, no timeout is added and no
  feedback cue is requested.
\<close>

theorem C10_debounced_event_no_effect:
  assumes "ls_code (lastScanRef s) = Some c"
    and "now - ls_timestamp (lastScanRef s) < 2000"
  shows "handleScanSuccess c r now ts s = (Suppressed, s) \<and>
         lastScanRef (snd (handleScanSuccess c r now ts s)) = lastScanRef s \<and>
         scannedCodesRef (snd (handleScanSuccess c r now ts s)) = scannedCodesRef s \<and>
         scanHistory (snd (handleScanSuccess c r now ts s)) = scanHistory s \<and>
         scannedData (snd (handleScanSuccess c r now ts s)) = scannedData s \<and>
         scanStatus (snd (handleScanSuccess c r now ts s)) = scanStatus s \<and>
         timers (snd (handleScanSuccess c r now ts s)) = timers s \<and>
         trace (snd (handleScanSuccess c r now ts s)) = trace s"
  using assms by (simp add: handleScanSuccess_def DEBOUNCE_TIME_def)

theorem C10_debounced_event_no_effect_witness:
  "ls_code (lastScanRef (run [ScanSuccess ''A'' ''rawA'' 0 ''10:00:00''] initial_state)) = Some ''A'' \<and>
   1999 - ls_timestamp (lastScanRef (run [ScanSuccess ''A'' ''rawA'' 0 ''10:00:00''] initial_state)) < 2000 \<and>
   handleScanSuccess ''A'' ''rawA'' 1999 ''10:00:01''
       (run [ScanSuccess ''A'' ''rawA'' 0 ''10:00:00''] initial_state)
     = (Suppressed, run [ScanSuccess ''A'' ''rawA'' 0 ''10:00:00''] initial_state) \<and>
   timers (snd (handleScanSuccess ''A'' ''rawA'' 1999 ''10:00:01''
       (run [ScanSuccess ''A'' ''rawA'' 0 ''10:00:00''] initial_state))) = [2000] \<and>
   trace (snd (handleScanSuccess ''A'' ''rawA'' 1999 ''10:00:01''
       (run [ScanSuccess ''A'' ''rawA'' 0 ''10:00:00''] initial_state))) = [Feedback SuccessCue]"
proof -
  let ?s = "run [ScanSuccess ''A'' ''rawA'' 0 ''10:00:00''] initial_state"
  have h1: "ls_code (lastScanRef ?s) = Some ''A''"
    by (simp add: handleScanSuccess_def DEBOUNCE_TIME_def Let_def setTimeout_autoClear_def
          triggerSuccessFeedback_def initial_state_def)
  have h2: "1999 - ls_timestamp (lastScanRef ?s) < 2000"
    by (simp add: handleScanSuccess_def DEBOUNCE_TIME_def Let_def setTimeout_autoClear_def
          triggerSuccessFeedback_def initial_state_def)
  have t: "timers ?s = [2000] \<and> trace ?s = [Feedback SuccessCue]"
    by (simp add: handleScanSuccess_def DEBOUNCE_TIME_def Let_def setTimeout_autoClear_def
          triggerSuccessFeedback_def initial_state_def)
  from C10_debounced_event_no_effect [OF h1 h2, of "''rawA''" "''10:00:01''"] h1 h2 t
  show ?thesis by simp
qed

end
